theory Spec2Isabelle
  imports Complex_Main
begin

section \<open>EcoGuardAi: the outbreak risk assessment of \<open>app.py\<close>\<close>

text \<open>
  The development embeds the request handlers of \<open>app.py\<close> that read and write the
  SQLite store: \<open>predict_species\<close>, \<open>calculate_distance\<close>, \<open>get_spread_trend\<close>,
  \<open>upload\<close>, \<open>approve_report\<close> and \<open>reject_report\<close>.

  Conventions of the embedding.
  \<^item> A Python \<open>float\<close> is a \<open>pyfloat\<close>: a real number, or one of the three non-finite
    values. Finite arithmetic is exact real arithmetic; rounding, overflow and the sign of
    zero are outside the model.
  \<^item> A Python exception is a value of type \<open>error\<close>; a handler that raises returns
    \<open>Inl\<close> of it.
  \<^item> The three tables are lists of rows in insertion order. A \<open>REAL\<close> column holds a
    \<open>pyfloat option\<close>, \<open>None\<close> being SQL \<open>NULL\<close>.
  \<^item> A \<open>created_at\<close> text \<open>YYYY-MM-DD HH:MM:SS\<close> is the number of seconds it denotes;
    SQLite's \<open>datetime\<close> compares such texts in chronological order, to the second.
    The clock of SQLite (\<open>datetime('now')\<close>) and the clock of Python
    (\<open>datetime.now()\<close>) are two separate inputs of a handler.
\<close>

subsection \<open>Python floats\<close>

datatype pyfloat = Fin real | PInf | NInf | NaN

datatype error = BadRequest | ValueError | TypeError | IndexError | ClassifierError

fun py_neg :: "pyfloat \<Rightarrow> pyfloat" where
  "py_neg (Fin x) = Fin (- x)"
| "py_neg PInf = NInf"
| "py_neg NInf = PInf"
| "py_neg NaN = NaN"

text \<open>\<open>x + y\<close> on floats.\<close>

fun py_add :: "pyfloat \<Rightarrow> pyfloat \<Rightarrow> pyfloat" where
  "py_add (Fin x) (Fin y) = Fin (x + y)"
| "py_add NaN y = NaN"
| "py_add x NaN = NaN"
| "py_add PInf NInf = NaN"
| "py_add NInf PInf = NaN"
| "py_add PInf y = PInf"
| "py_add x PInf = PInf"
| "py_add NInf y = NInf"
| "py_add x NInf = NInf"

definition py_sub :: "pyfloat \<Rightarrow> pyfloat \<Rightarrow> pyfloat" where
  "py_sub x y = py_add x (py_neg y)"

text \<open>\<open>x * y\<close> on floats: an infinity times zero is not a number.\<close>

fun py_mul :: "pyfloat \<Rightarrow> pyfloat \<Rightarrow> pyfloat" where
  "py_mul (Fin x) (Fin y) = Fin (x * y)"
| "py_mul NaN y = NaN"
| "py_mul x NaN = NaN"
| "py_mul PInf (Fin y) = (if y = 0 then NaN else if 0 < y then PInf else NInf)"
| "py_mul NInf (Fin y) = (if y = 0 then NaN else if 0 < y then NInf else PInf)"
| "py_mul (Fin x) PInf = (if x = 0 then NaN else if 0 < x then PInf else NInf)"
| "py_mul (Fin x) NInf = (if x = 0 then NaN else if 0 < x then NInf else PInf)"
| "py_mul PInf PInf = PInf"
| "py_mul NInf NInf = PInf"
| "py_mul PInf NInf = NInf"
| "py_mul NInf PInf = NInf"

text \<open>\<open>x / 2\<close> and \<open>x ** 2\<close>, the only division and power of the program.\<close>

fun py_half :: "pyfloat \<Rightarrow> pyfloat" where
  "py_half (Fin x) = Fin (x / 2)"
| "py_half x = x"

fun py_sq :: "pyfloat \<Rightarrow> pyfloat" where
  "py_sq (Fin x) = Fin (x\<^sup>2)"
| "py_sq NaN = NaN"
| "py_sq x = PInf"

text \<open>\<open>x <= y\<close> and \<open>x < y\<close>: every comparison with a NaN is false.\<close>

fun py_le :: "pyfloat \<Rightarrow> pyfloat \<Rightarrow> bool" where
  "py_le (Fin x) (Fin y) = (x \<le> y)"
| "py_le NaN y = False"
| "py_le x NaN = False"
| "py_le NInf y = True"
| "py_le x PInf = True"
| "py_le x y = False"

subsection \<open>The \<open>math\<close> module\<close>

text \<open>
  \<open>math.radians\<close> scales by \<open>pi / 180\<close>. \<open>math.sin\<close> and \<open>math.cos\<close> raise
  \<open>ValueError\<close> at an infinity and pass a NaN through; \<open>math.sqrt\<close> raises it
  below zero. \<open>math.atan2\<close> never raises.
\<close>

definition radians :: "pyfloat \<Rightarrow> pyfloat" where
  "radians x = py_mul x (Fin (pi / 180))"

fun py_sin :: "pyfloat \<Rightarrow> error + pyfloat" where
  "py_sin (Fin x) = Inr (Fin (sin x))"
| "py_sin NaN = Inr NaN"
| "py_sin x = Inl ValueError"

fun py_cos :: "pyfloat \<Rightarrow> error + pyfloat" where
  "py_cos (Fin x) = Inr (Fin (cos x))"
| "py_cos NaN = Inr NaN"
| "py_cos x = Inl ValueError"

fun py_sqrt :: "pyfloat \<Rightarrow> error + pyfloat" where
  "py_sqrt (Fin x) = (if x < 0 then Inl ValueError else Inr (Fin (sqrt x)))"
| "py_sqrt NaN = Inr NaN"
| "py_sqrt PInf = Inr PInf"
| "py_sqrt NInf = Inl ValueError"

definition atan2 :: "real \<Rightarrow> real \<Rightarrow> real" where
  "atan2 y x =
     (if 0 < x then arctan (y / x)
      else if x < 0 then (if 0 \<le> y then arctan (y / x) + pi else arctan (y / x) - pi)
      else if 0 < y then pi / 2
      else if y < 0 then - (pi / 2)
      else 0)"

fun py_atan2 :: "pyfloat \<Rightarrow> pyfloat \<Rightarrow> pyfloat" where
  "py_atan2 (Fin y) (Fin x) = Fin (atan2 y x)"
| "py_atan2 NaN x = NaN"
| "py_atan2 y NaN = NaN"
| "py_atan2 PInf PInf = Fin (pi / 4)"
| "py_atan2 NInf PInf = Fin (- (pi / 4))"
| "py_atan2 PInf NInf = Fin (3 * pi / 4)"
| "py_atan2 NInf NInf = Fin (- (3 * pi / 4))"
| "py_atan2 PInf (Fin x) = Fin (pi / 2)"
| "py_atan2 NInf (Fin x) = Fin (- (pi / 2))"
| "py_atan2 (Fin y) PInf = Fin 0"
| "py_atan2 (Fin y) NInf = Fin (if 0 \<le> y then pi else - pi)"

subsection \<open>Distance calculation (haversine), lines 100 to 109\<close>

definition calculate_distance ::
  "pyfloat \<Rightarrow> pyfloat \<Rightarrow> pyfloat \<Rightarrow> pyfloat \<Rightarrow> error + pyfloat" where
  "calculate_distance lat1 lon1 lat2 lon2 =
     (let R = Fin 6371;
          dLat = radians (py_sub lat2 lat1);
          dLon = radians (py_sub lon2 lon1)
      in case py_sin (py_half dLat) of Inl e \<Rightarrow> Inl e | Inr s1 \<Rightarrow>
        (case py_cos (radians lat1) of Inl e \<Rightarrow> Inl e | Inr c1 \<Rightarrow>
        (case py_cos (radians lat2) of Inl e \<Rightarrow> Inl e | Inr c2 \<Rightarrow>
        (case py_sin (py_half dLon) of Inl e \<Rightarrow> Inl e | Inr s2 \<Rightarrow>
        (let a = py_add (py_sq s1) (py_mul (py_mul c1 c2) (py_sq s2))
         in case py_sqrt a of Inl e \<Rightarrow> Inl e | Inr ra \<Rightarrow>
           (case py_sqrt (py_sub (Fin 1) a) of Inl e \<Rightarrow> Inl e | Inr rb \<Rightarrow>
           (let c = py_mul (Fin 2) (py_atan2 ra rb)
            in Inr (py_mul R c))))))))"

subsection \<open>The store\<close>

text \<open>
  The tables of \<open>create_table\<close>. Binding a Python float to a \<open>REAL\<close> column stores
  it, except that SQLite stores a NaN as \<open>NULL\<close>. An \<open>AUTOINCREMENT\<close> key is one more
  than the largest key of the table; no handler deletes a row.
\<close>

record report_row =
  report_id :: int
  report_image :: string
  report_latitude :: "pyfloat option"
  report_longitude :: "pyfloat option"
  report_address :: string
  report_prediction :: string
  report_created_at :: int
  report_verified :: int
  report_confidence :: "pyfloat option"
  report_risk :: string

record alert_row =
  alert_id :: int
  alert_latitude :: "pyfloat option"
  alert_longitude :: "pyfloat option"
  alert_severity :: string
  alert_message :: string
  alert_created_at :: int
  alert_status :: string
  alert_species :: string

record anomaly_row =
  anomaly_id :: int
  anomaly_latitude :: "pyfloat option"
  anomaly_longitude :: "pyfloat option"
  anomaly_radius :: "pyfloat option"
  anomaly_description :: string

record db =
  reports :: "report_row list"
  alerts :: "alert_row list"
  anomalies :: "anomaly_row list"

fun bind_real :: "pyfloat \<Rightarrow> pyfloat option" where
  "bind_real NaN = None"
| "bind_real x = Some x"

definition next_id :: "int list \<Rightarrow> int" where
  "next_id ids = fold max ids 0 + 1"

definition insert_anomaly ::
  "pyfloat \<Rightarrow> pyfloat \<Rightarrow> pyfloat \<Rightarrow> string \<Rightarrow> db \<Rightarrow> db" where
  "insert_anomaly latitude longitude radius description d =
     d\<lparr>anomalies := anomalies d @
        [\<lparr>anomaly_id = next_id (map anomaly_id (anomalies d)),
          anomaly_latitude = bind_real latitude,
          anomaly_longitude = bind_real longitude,
          anomaly_radius = bind_real radius,
          anomaly_description = description\<rparr>]\<rparr>"

definition insert_alert ::
  "pyfloat \<Rightarrow> pyfloat \<Rightarrow> string \<Rightarrow> string \<Rightarrow> int \<Rightarrow> string \<Rightarrow> string \<Rightarrow> db \<Rightarrow> db" where
  "insert_alert latitude longitude severity message created_at status species d =
     d\<lparr>alerts := alerts d @
        [\<lparr>alert_id = next_id (map alert_id (alerts d)),
          alert_latitude = bind_real latitude,
          alert_longitude = bind_real longitude,
          alert_severity = severity,
          alert_message = message,
          alert_created_at = created_at,
          alert_status = status,
          alert_species = species\<rparr>]\<rparr>"

text \<open>The insert of a report names no \<open>verified\<close> column: the row gets the default 0.\<close>

definition insert_report ::
  "string \<Rightarrow> pyfloat \<Rightarrow> pyfloat \<Rightarrow> string \<Rightarrow> string \<Rightarrow> int \<Rightarrow> pyfloat \<Rightarrow> string \<Rightarrow> db \<Rightarrow> db" where
  "insert_report filename latitude longitude address prediction created_at confidence risk d =
     d\<lparr>reports := reports d @
        [\<lparr>report_id = next_id (map report_id (reports d)),
          report_image = filename,
          report_latitude = bind_real latitude,
          report_longitude = bind_real longitude,
          report_address = address,
          report_prediction = prediction,
          report_created_at = created_at,
          report_verified = 0,
          report_confidence = bind_real confidence,
          report_risk = risk\<rparr>]\<rparr>"

subsection \<open>Prediction function, lines 74 to 95\<close>

text \<open>
  The argument of \<open>predict_species\<close> in the model is what opening the image and
  \<open>model.predict(img_array)[0]\<close> give: an exception of the image or network library,
  or the vector of class probabilities, taken to be finite reals. \<open>argmax\<close> is
  \<open>np.argmax\<close>: the index of the first largest entry.
\<close>

definition classes :: "string list" where
  "classes = [''Dung beetle'', ''Apple snail'', ''Asian longhorned beetle'']"

fun argmax :: "real list \<Rightarrow> nat" where
  "argmax [] = 0"
| "argmax [x] = 0"
| "argmax (x # xs) = (let i = argmax xs in if x < xs ! i then Suc i else 0)"

definition predict_species :: "error + real list \<Rightarrow> error + string \<times> real" where
  "predict_species model_output =
     (case model_output of Inl e \<Rightarrow> Inl e | Inr prediction \<Rightarrow>
        if prediction = [] then Inl ValueError
        else let class_index = argmax prediction;
                 confidence = prediction ! class_index
             in if confidence < 0.70 then Inr (''Unknown Species'', confidence)
                else if class_index < length classes
                     then Inr (classes ! class_index, confidence)
                     else Inl IndexError)"

subsection \<open>Spread trend analysis, lines 114 to 141\<close>

definition days :: "int \<Rightarrow> int" where
  "days n = n * 86400"

text \<open>
  The list \<open>invasive_species\<close> of \<open>upload\<close>; every query of the program writes the
  same two labels in its \<open>prediction IN (...)\<close>.
\<close>

definition invasive_species :: "string list" where
  "invasive_species = [''Apple snail'', ''Asian longhorned beetle'']"

definition where_recent_invasive :: "int \<Rightarrow> report_row \<Rightarrow> bool" where
  "where_recent_invasive now_sql r \<longleftrightarrow>
     report_prediction r \<in> set invasive_species \<and> now_sql - days 7 \<le> report_created_at r"

definition Spreading :: string where
  "Spreading = ''Spreading '' @
     [CHR 0xC3, CHR 0xB0, CHR 0xC5, CHR 0xB8, CHR 0xE2, CHR 0x80, CHR 0x9D, CHR 0xC2, CHR 0xBA]"

definition Stable :: string where
  "Stable = ''Stable '' @ [CHR 0xC3, CHR 0xA2, CHR 0xC5, CHR 0xBE, CHR 0xE2, CHR 0x80, CHR 0x93]"

definition Declining :: string where
  "Declining = ''Declining '' @
     [CHR 0xC3, CHR 0xB0, CHR 0xC5, CHR 0xB8, CHR 0xE2, CHR 0x80, CHR 0x9D, CHR 0xC2, CHR 0xBB]"

definition current_week_rows :: "int \<Rightarrow> db \<Rightarrow> report_row list" where
  "current_week_rows now_sql d =
     filter (where_recent_invasive now_sql) (reports d)"

text \<open>SQL's \<open>x BETWEEN lo AND hi\<close> is \<open>lo <= x AND x <= hi\<close>.\<close>

definition previous_week_rows :: "int \<Rightarrow> db \<Rightarrow> report_row list" where
  "previous_week_rows now_sql d =
     filter (\<lambda>r. report_prediction r \<in> set invasive_species \<and>
                 now_sql - days 14 \<le> report_created_at r \<and>
                 report_created_at r \<le> now_sql - days 7) (reports d)"

definition get_spread_trend :: "int \<Rightarrow> db \<Rightarrow> nat \<times> nat \<times> string" where
  "get_spread_trend now_sql d =
     (let current_week = length (current_week_rows now_sql d);
          previous_week = length (previous_week_rows now_sql d);
          trend = (if current_week > previous_week then Spreading
                   else if current_week = previous_week then Stable
                   else Declining)
      in (current_week, previous_week, trend))"

subsection \<open>Upload route, lines 153 to 244\<close>

text \<open>
  A request carries the file name of the uploaded image, the three form fields and what
  the classifier makes of the image. A coordinate field is \<open>Missing\<close> (Flask answers
  400), or a text that \<open>float\<close> refuses (\<open>NotFloat\<close>, a \<open>ValueError\<close>), or a text
  that \<open>float\<close> accepts. Python's \<open>float\<close> accepts \<open>nan\<close>, \<open>inf\<close> and
  \<open>infinity\<close>, with a sign and in any case, beside the decimal literals, so the value of
  an accepted text is any \<open>pyfloat\<close>.
\<close>

datatype float_arg = Missing | NotFloat | FloatOf pyfloat

record request =
  files_image :: "string option"
  form_latitude :: float_arg
  form_longitude :: float_arg
  form_address :: "string option"
  model_output :: "error + real list"

fun float_of_form :: "float_arg \<Rightarrow> error + pyfloat" where
  "float_of_form Missing = Inl BadRequest"
| "float_of_form NotFloat = Inl ValueError"
| "float_of_form (FloatOf x) = Inr x"

text \<open>
  \<open>float(report[0])\<close> on a column value: \<open>float(None)\<close> raises \<open>TypeError\<close>.
\<close>

fun py_float :: "pyfloat option \<Rightarrow> error + pyfloat" where
  "py_float None = Inl TypeError"
| "py_float (Some x) = Inr x"

text \<open>
  \<open>round(x, 2)\<close>: to the nearest multiple of a hundredth, a tie to the even one.
\<close>

definition py_round2 :: "real \<Rightarrow> real" where
  "py_round2 x =
     (let y = x * 100; f = \<lfloor>y\<rfloor>; r = y - of_int f
      in of_int (if r < 1 / 2 then f else if 1 / 2 < r then f + 1
                 else if even f then f else f + 1) / 100)"

record result_page =
  page_image :: string
  page_prediction :: string
  page_risk :: string
  page_latitude :: pyfloat
  page_longitude :: pyfloat
  page_address :: string
  page_confidence :: real

definition Critical :: string where
  "Critical = ''Critical '' @
     [CHR 0xC3, CHR 0xB0, CHR 0xC5, CHR 0xB8, CHR 0xC5, CHR 0xA1, CHR 0xC2, CHR 0xA8]"

text \<open>The default risk, lines 167 to 172.\<close>

definition default_risk :: "string \<Rightarrow> string" where
  "default_risk result =
     (if result = ''Unknown Species'' then ''Uncertain - Low Confidence Detection''
      else if result \<in> set invasive_species then ''High Risk (Invasive Species Detected)''
      else ''Low Risk (Native Species)'')"

text \<open>The query of lines 182 to 188: latitude, longitude and creation time of each row.\<close>

definition select_invasive_reports ::
  "int \<Rightarrow> db \<Rightarrow> (pyfloat option \<times> pyfloat option \<times> int) list" where
  "select_invasive_reports now_sql d =
     map (\<lambda>r. (report_latitude r, report_longitude r, report_created_at r))
       (filter (where_recent_invasive now_sql) (reports d))"

text \<open>The loop of lines 191 to 194, from a starting value of \<open>cluster_count\<close>.\<close>

fun cluster_loop ::
  "pyfloat \<Rightarrow> pyfloat \<Rightarrow> (pyfloat option \<times> pyfloat option \<times> int) list \<Rightarrow> nat \<Rightarrow> error + nat"
  where
  "cluster_loop latitude longitude [] cluster_count = Inr cluster_count"
| "cluster_loop latitude longitude (report # rest) cluster_count =
     (case py_float (fst report) of Inl e \<Rightarrow> Inl e | Inr lat2 \<Rightarrow>
     (case py_float (fst (snd report)) of Inl e \<Rightarrow> Inl e | Inr lon2 \<Rightarrow>
     (case calculate_distance latitude longitude lat2 lon2 of Inl e \<Rightarrow> Inl e | Inr distance \<Rightarrow>
        if py_le distance (Fin 20)
        then cluster_loop latitude longitude rest (cluster_count + 1)
        else cluster_loop latitude longitude rest cluster_count)))"

text \<open>The adjusted risk calculation, lines 205 to 214.\<close>

definition risk_score_value :: "nat \<Rightarrow> nat \<Rightarrow> nat \<Rightarrow> real" where
  "risk_score_value cluster_count recent_count anomaly_flag =
     (real cluster_count * 0.4) + (real recent_count * 0.3) + (real anomaly_flag * 0.3)"

definition risk_of_score :: "real \<Rightarrow> string" where
  "risk_of_score score =
     (if score < 3 then ''Low''
      else if score < 6 then ''Moderate''
      else if score < 9 then ''High''
      else Critical)"

text \<open>
  The branch of an invasive result, lines 181 to 225. It returns the local variables and
  the store as the open transaction sees it after the two conditional inserts.
\<close>

record scoring =
  cluster_count :: nat
  recent_count :: nat
  anomaly_flag :: nat
  score :: real
  risk :: string
  store :: db

definition upload_scoring ::
  "int \<Rightarrow> int \<Rightarrow> pyfloat \<Rightarrow> pyfloat \<Rightarrow> string \<Rightarrow> db \<Rightarrow> error + scoring" where
  "upload_scoring now_sql now_py latitude longitude result d =
     (let invasive_reports = select_invasive_reports now_sql d;
          recent = length invasive_reports
      in case cluster_loop latitude longitude invasive_reports 0 of Inl e \<Rightarrow> Inl e
         | Inr cluster \<Rightarrow>
          (let d1 = (if 2 \<le> cluster
                     then insert_anomaly latitude longitude (Fin 20000)
                            ''Vegetation Stress Detected via Satellite Correlation'' d
                     else d);
               flag = (if 2 \<le> cluster then 1 else 0);
               total = risk_score_value cluster recent flag;
               level = risk_of_score total;
               d2 = (if level \<in> set [''High'', Critical]
                     then insert_alert latitude longitude level
                            (result @ '' detected at high risk'') now_py ''Active'' result d1
                     else d1)
           in Inr \<lparr>cluster_count = cluster, recent_count = recent, anomaly_flag = flag,
                    score = total, risk = level, store = d2\<rparr>))"

text \<open>
  The handler. An exception leaves the store as it was: every statement that can raise
  comes before the first insert, and nothing is committed before line 234. Saving the
  image under \<open>static\<close> writes a file, not the store, and is left out. The result
  is the store after the request and either the error or the values handed to the
  result page.
\<close>

definition upload :: "int \<Rightarrow> int \<Rightarrow> request \<Rightarrow> db \<Rightarrow> db \<times> (error + result_page)" where
  "upload now_sql now_py req d =
     (case files_image req of None \<Rightarrow> (d, Inl BadRequest) | Some filename \<Rightarrow>
     (case float_of_form (form_latitude req) of Inl e \<Rightarrow> (d, Inl e) | Inr latitude \<Rightarrow>
     (case float_of_form (form_longitude req) of Inl e \<Rightarrow> (d, Inl e) | Inr longitude \<Rightarrow>
     (case form_address req of None \<Rightarrow> (d, Inl BadRequest) | Some address \<Rightarrow>
     (case predict_species (model_output req) of Inl e \<Rightarrow> (d, Inl e)
      | Inr (result, confidence) \<Rightarrow>
       (let page = (\<lambda>level. \<lparr>page_image = filename, page_prediction = result,
                      page_risk = level, page_latitude = latitude,
                      page_longitude = longitude, page_address = address,
                      page_confidence = py_round2 (confidence * 100)\<rparr>);
            save = (\<lambda>level. insert_report filename latitude longitude address result
                      now_py (Fin confidence) level)
        in if result \<in> set invasive_species
           then (case upload_scoring now_sql now_py latitude longitude result d of
                   Inl e \<Rightarrow> (d, Inl e)
                 | Inr s \<Rightarrow> (save (risk s) (store s), Inr (page (risk s))))
           else (save (default_risk result) d, Inr (page (default_risk result)))))))))"

subsection \<open>Admin approve and reject routes, lines 368 to 384\<close>

definition update_verified :: "int \<Rightarrow> int \<Rightarrow> db \<Rightarrow> db" where
  "update_verified v rid d =
     d\<lparr>reports := map (\<lambda>r. if report_id r = rid then r\<lparr>report_verified := v\<rparr> else r)
                       (reports d)\<rparr>"

definition approve_report :: "int \<Rightarrow> db \<Rightarrow> db \<times> string" where
  "approve_report rid d =
     (update_verified 1 rid d,
      ''Report Approved! <a href='' @ [CHR 0x27] @ ''/admin/review'' @ [CHR 0x27] @
      ''>Back to Review</a>'')"

definition reject_report :: "int \<Rightarrow> db \<Rightarrow> db \<times> string" where
  "reject_report rid d =
     (update_verified (- 1) rid d,
      ''Report Rejected! <a href='' @ [CHR 0x27] @ ''/admin/review'' @ [CHR 0x27] @
      ''>Back to Review</a>'')"

subsection \<open>Example stores and requests\<close>

text \<open>
  Two sightings of the apple snail at the origin, a thousand seconds apart, and a third
  one uploaded at the same place when both clocks read 3000.
\<close>

definition snail_row :: "int \<Rightarrow> int \<Rightarrow> report_row" where
  "snail_row i t =
     \<lparr>report_id = i, report_image = ''snail.jpg'',
      report_latitude = Some (Fin 0), report_longitude = Some (Fin 0),
      report_address = ''pond'', report_prediction = ''Apple snail'',
      report_created_at = t, report_verified = 0,
      report_confidence = Some (Fin 0.9), report_risk = ''Low''\<rparr>"

definition two_snails :: db where
  "two_snails =
     \<lparr>reports = [snail_row 1 1000, snail_row 2 2000], alerts = [], anomalies = []\<rparr>"

definition snail_request :: request where
  "snail_request =
     \<lparr>files_image = Some ''snail.jpg'', form_latitude = FloatOf (Fin 0),
      form_longitude = FloatOf (Fin 0), form_address = Some ''pond'',
      model_output = Inr [0.05, 0.9, 0.05]\<rparr>"

definition stress_anomaly :: anomaly_row where
  "stress_anomaly =
     \<lparr>anomaly_id = 1, anomaly_latitude = Some (Fin 0), anomaly_longitude = Some (Fin 0),
      anomaly_radius = Some (Fin 20000),
      anomaly_description = ''Vegetation Stress Detected via Satellite Correlation''\<rparr>"

definition three_snails :: db where
  "three_snails =
     \<lparr>reports = [snail_row 1 1000, snail_row 2 2000, snail_row 3 3000], alerts = [],
      anomalies = [stress_anomaly]\<rparr>"

definition snail_page :: result_page where
  "snail_page =
     \<lparr>page_image = ''snail.jpg'', page_prediction = ''Apple snail'', page_risk = ''Low'',
      page_latitude = Fin 0, page_longitude = Fin 0, page_address = ''pond'',
      page_confidence = 90\<rparr>"

definition snail_scoring :: scoring where
  "snail_scoring =
     \<lparr>cluster_count = 2, recent_count = 2, anomaly_flag = 1, score = 1.7, risk = ''Low'',
      store = two_snails\<lparr>anomalies := [stress_anomaly]\<rparr>\<rparr>"

text \<open>
  Nine sightings within the week, and the store after a tenth upload at the same place: the
  score is 6.6, the risk \<open>High\<close>, and an alert is written.
\<close>

definition nine_snails :: db where
  "nine_snails =
     \<lparr>reports = [snail_row 1 1000, snail_row 2 1000, snail_row 3 1000, snail_row 4 1000,
                 snail_row 5 1000, snail_row 6 1000, snail_row 7 1000, snail_row 8 1000,
                 snail_row 9 1000],
      alerts = [], anomalies = []\<rparr>"

definition snail_alert :: alert_row where
  "snail_alert =
     \<lparr>alert_id = 1, alert_latitude = Some (Fin 0), alert_longitude = Some (Fin 0),
      alert_severity = ''High'', alert_message = ''Apple snail detected at high risk'',
      alert_created_at = 3000, alert_status = ''Active'', alert_species = ''Apple snail''\<rparr>"

definition ten_snails :: db where
  "ten_snails =
     \<lparr>reports = reports nine_snails @ [(snail_row 10 3000)\<lparr>report_risk := ''High''\<rparr>],
      alerts = [snail_alert], anomalies = [stress_anomaly]\<rparr>"

definition high_page :: result_page where
  "high_page = snail_page\<lparr>page_risk := ''High''\<rparr>"

text \<open>
  A store whose only report was created exactly seven days before the clock of SQLite
  reads 2000000.
\<close>

definition boundary_store :: db where
  "boundary_store = \<lparr>reports = [snail_row 1 1395200], alerts = [], anomalies = []\<rparr>"

text \<open>
  A blurred image, whose best class has probability 0.65, and a store in which the scoring
  of an invasive upload raises: its only report has no latitude.
\<close>

definition unsure_request :: request where
  "unsure_request =
     \<lparr>files_image = Some ''blur.jpg'', form_latitude = FloatOf (Fin 0),
      form_longitude = FloatOf (Fin 0), form_address = Some ''pond'',
      model_output = Inr [0.3, 0.65, 0.05]\<rparr>"

definition null_store :: db where
  "null_store =
     \<lparr>reports = [(snail_row 1 1000)\<lparr>report_latitude := None\<rparr>], alerts = [], anomalies = []\<rparr>"

text \<open>
  Two candidate rows on the equator, 20 km and 20.0001 km east of the origin: on the
  equator the distance is the radius times the difference of the longitudes in radians.
\<close>

definition at_20km :: "pyfloat option \<times> pyfloat option \<times> int" where
  "at_20km = (Some (Fin 0), Some (Fin (20 / 6371 * 180 / pi)), 1000)"

definition beyond_20km :: "pyfloat option \<times> pyfloat option \<times> int" where
  "beyond_20km = (Some (Fin 0), Some (Fin (20.0001 / 6371 * 180 / pi)), 1000)"

text \<open>
  An upload of a native species whose latitude field reads \<open>nan\<close>, the row it leaves
  in the store, and the same upload with a latitude that is no float literal.
\<close>

definition nan_request :: request where
  "nan_request =
     \<lparr>files_image = Some ''beetle.jpg'', form_latitude = FloatOf NaN,
      form_longitude = FloatOf (Fin 0), form_address = Some ''field'',
      model_output = Inr [0.9, 0.05, 0.05]\<rparr>"

definition bad_request :: request where
  "bad_request = nan_request\<lparr>form_latitude := NotFloat\<rparr>"

definition nan_row :: report_row where
  "nan_row =
     \<lparr>report_id = 3, report_image = ''beetle.jpg'',
      report_latitude = None, report_longitude = Some (Fin 0),
      report_address = ''field'', report_prediction = ''Dung beetle'',
      report_created_at = 3000, report_verified = 0,
      report_confidence = Some (Fin 0.9), report_risk = ''Low Risk (Native Species)''\<rparr>"

section \<open>Properties\<close>

subsection \<open>Auxiliary facts\<close>

lemma float_of_form_Inr: "float_of_form a = Inr x \<longleftrightarrow> a = FloatOf x"
  by (cases a) auto

text \<open>What a successful upload has read, computed and written.\<close>

lemma upload_ok:
  assumes "upload now_sql now_py req d = (d', Inr page)"
  shows "\<exists>filename address confidence lvl d2.
    files_image req = Some filename \<and>
    form_latitude req = FloatOf (page_latitude page) \<and>
    form_longitude req = FloatOf (page_longitude page) \<and>
    form_address req = Some address \<and>
    predict_species (model_output req) = Inr (page_prediction page, confidence) \<and>
    page = \<lparr>page_image = filename, page_prediction = page_prediction page, page_risk = lvl,
            page_latitude = page_latitude page, page_longitude = page_longitude page,
            page_address = address, page_confidence = py_round2 (confidence * 100)\<rparr> \<and>
    d' = insert_report filename (page_latitude page) (page_longitude page) address
           (page_prediction page) now_py (Fin confidence) lvl d2 \<and>
    (if page_prediction page \<in> set invasive_species
     then (\<exists>s. upload_scoring now_sql now_py (page_latitude page) (page_longitude page)
                 (page_prediction page) d = Inr s \<and> lvl = risk s \<and> d2 = store s)
     else lvl = default_risk (page_prediction page) \<and> d2 = d)"
  using assms unfolding upload_def Let_def
  by (auto split: option.splits sum.splits prod.splits if_splits simp: float_of_form_Inr)

lemma fold_max_ge: "(a::int) \<le> fold max xs a"
proof (induction xs arbitrary: a)
  case Nil
  show ?case by simp
next
  case (Cons x xs)
  have "a \<le> max x a" by simp
  also have "max x a \<le> fold max xs (max x a)" by (rule Cons.IH)
  finally show ?case by simp
qed

lemma fold_max_mem: "x \<in> set xs \<Longrightarrow> (x::int) \<le> fold max xs a"
proof (induction xs arbitrary: a)
  case Nil
  then show ?case by simp
next
  case (Cons y ys)
  show ?case
  proof (cases "x = y")
    case True
    have "max y a \<le> fold max ys (max y a)" by (rule fold_max_ge)
    with True show ?thesis by simp
  next
    case False
    with Cons show ?thesis by simp
  qed
qed

lemma next_id_fresh: "next_id ids \<notin> set ids"
proof
  assume "next_id ids \<in> set ids"
  then have "next_id ids \<le> fold max ids 0" by (rule fold_max_mem)
  then show False by (simp add: next_id_def)
qed

lemma cluster_loop_le:
  "cluster_loop lat lon rows acc = Inr n \<Longrightarrow> acc \<le> n \<and> n \<le> acc + length rows"
proof (induction rows arbitrary: acc)
  case Nil
  then show ?case by simp
next
  case (Cons r rows)
  then show ?case
    by (fastforce split: sum.splits if_splits)
qed

lemma upload_scoring_fields:
  assumes "upload_scoring now_sql now_py latitude longitude result d = Inr s"
  shows "cluster_loop latitude longitude (select_invasive_reports now_sql d) 0
           = Inr (cluster_count s)"
    and "recent_count s = length (select_invasive_reports now_sql d)"
    and "anomaly_flag s = (if 2 \<le> cluster_count s then 1 else 0)"
    and "score s = risk_score_value (cluster_count s) (recent_count s) (anomaly_flag s)"
    and "risk s = risk_of_score (score s)"
  using assms unfolding upload_scoring_def Let_def
  by (auto split: sum.splits)

lemma upload_scoring_store:
  assumes "upload_scoring now_sql now_py latitude longitude result d = Inr s"
  shows "reports (store s) = reports d"
    and "anomalies (store s) = anomalies d @
           (if 2 \<le> cluster_count s
            then [\<lparr>anomaly_id = next_id (map anomaly_id (anomalies d)),
                   anomaly_latitude = bind_real latitude,
                   anomaly_longitude = bind_real longitude,
                   anomaly_radius = Some (Fin 20000),
                   anomaly_description =
                     ''Vegetation Stress Detected via Satellite Correlation''\<rparr>]
            else [])"
    and "alerts (store s) = alerts d @
           (if risk s \<in> set [''High'', Critical]
            then [\<lparr>alert_id = next_id (map alert_id (alerts d)),
                   alert_latitude = bind_real latitude,
                   alert_longitude = bind_real longitude,
                   alert_severity = risk s,
                   alert_message = result @ '' detected at high risk'',
                   alert_created_at = now_py,
                   alert_status = ''Active'',
                   alert_species = result\<rparr>]
            else [])"
  using assms unfolding upload_scoring_def Let_def
  by (auto split: sum.splits simp: insert_anomaly_def insert_alert_def)

lemma risk_of_score_cases:
  "(risk_of_score x = ''Low'' \<longleftrightarrow> x < 3) \<and>
   (risk_of_score x = ''Moderate'' \<longleftrightarrow> 3 \<le> x \<and> x < 6) \<and>
   (risk_of_score x = ''High'' \<longleftrightarrow> 6 \<le> x \<and> x < 9) \<and>
   (risk_of_score x = Critical \<longleftrightarrow> 9 \<le> x)"
  by (auto simp: risk_of_score_def Critical_def)

lemma risk_score_value_nonneg: "0 \<le> risk_score_value c r a"
  by (simp add: risk_score_value_def)

text \<open>The example upload, evaluated.\<close>

lemma calculate_distance_same:
  "calculate_distance (Fin x) (Fin y) (Fin x) (Fin y) = Inr (Fin 0)"
  by (simp add: calculate_distance_def radians_def py_sub_def atan2_def)

lemma snail_fields:
  "files_image snail_request = Some ''snail.jpg''"
  "form_latitude snail_request = FloatOf (Fin 0)"
  "form_longitude snail_request = FloatOf (Fin 0)"
  "form_address snail_request = Some ''pond''"
  by (simp_all add: snail_request_def)

lemma predict_snail:
  "predict_species (model_output snail_request) = Inr (''Apple snail'', 0.9)"
  by (simp add: predict_species_def classes_def snail_request_def)

lemma select_two:
  "select_invasive_reports 3000 two_snails =
     [(Some (Fin 0), Some (Fin 0), 1000), (Some (Fin 0), Some (Fin 0), 2000)]"
  by (simp add: select_invasive_reports_def two_snails_def snail_row_def
        where_recent_invasive_def invasive_species_def days_def)

lemma loop_two:
  "cluster_loop (Fin 0) (Fin 0)
     [(Some (Fin 0), Some (Fin 0), 1000), (Some (Fin 0), Some (Fin 0), 2000)] 0 = Inr 2"
  by (simp add: calculate_distance_same)

lemma scoring_two:
  "upload_scoring 3000 3000 (Fin 0) (Fin 0) ''Apple snail'' two_snails = Inr snail_scoring"
  unfolding upload_scoring_def Let_def select_two loop_two
  by (simp add: risk_score_value_def risk_of_score_def insert_anomaly_def next_id_def
        two_snails_def Critical_def snail_scoring_def stress_anomaly_def)

lemma upload_two:
  "upload 3000 3000 snail_request two_snails = (three_snails, Inr snail_page)"
  unfolding upload_def Let_def
  apply (simp add: snail_fields predict_snail invasive_species_def scoring_two)
  apply (simp add: insert_report_def two_snails_def next_id_def snail_row_def py_round2_def
           snail_scoring_def three_snails_def snail_page_def)
  done

lemma default_risk_no_alert: "default_risk result \<notin> set [''High'', Critical]"
  by (simp add: default_risk_def Critical_def)

lemma insert_report_tables:
  "alerts (insert_report f la lo a p t c l d) = alerts d"
  "anomalies (insert_report f la lo a p t c l d) = anomalies d"
  "reports (insert_report f la lo a p t c l d) = reports d @
     [\<lparr>report_id = next_id (map report_id (reports d)), report_image = f,
       report_latitude = bind_real la, report_longitude = bind_real lo,
       report_address = a, report_prediction = p, report_created_at = t,
       report_verified = 0, report_confidence = bind_real c, report_risk = l\<rparr>]"
  by (simp_all add: insert_report_def)

lemma atan2_sin_cos:
  assumes "0 \<le> u" "u < pi / 2"
  shows "atan2 (sin u) (cos u) = u"
proof -
  have c: "0 < cos u" using assms by (intro cos_gt_zero_pi) auto
  have "arctan (sin u / cos u) = arctan (tan u)" by (simp add: tan_def)
  also have "\<dots> = u" using assms by (intro arctan_tan) auto
  finally show ?thesis using c by (simp add: atan2_def)
qed

lemma equator_distance:
  assumes "0 \<le> t" "t < pi"
  shows "calculate_distance (Fin 0) (Fin 0) (Fin 0) (Fin (t * 180 / pi)) = Inr (Fin (6371 * t))"
proof -
  let ?u = "t / 2"
  have u: "0 \<le> ?u" "?u < pi / 2" using assms by auto
  have s: "0 \<le> sin ?u" using u by (intro sin_ge_zero) auto
  have c: "0 < cos ?u" using u by (intro cos_gt_zero_pi) auto
  have sq1: "\<bar>sin ?u\<bar> = sin ?u" using s by simp
  have "1 - (sin ?u)\<^sup>2 = (cos ?u)\<^sup>2" by (simp add: cos_squared_eq)
  then have sq2: "sqrt (1 - (sin ?u)\<^sup>2) = cos ?u" using c by simp
  have nn: "\<not> 1 - (sin ?u)\<^sup>2 < 0" by (simp add: \<open>1 - (sin ?u)\<^sup>2 = (cos ?u)\<^sup>2\<close>)
  have at: "atan2 (sin ?u) (cos ?u) = ?u" by (rule atan2_sin_cos[OF u])
  show ?thesis
    using nn by (simp add: calculate_distance_def radians_def py_sub_def sq1 sq2 at)
qed

lemma loop_same:
  "cluster_loop (Fin x) (Fin y) (replicate n (Some (Fin x), Some (Fin y), t)) acc = Inr (acc + n)"
  by (induction n arbitrary: acc) (simp_all add: calculate_distance_same)

lemma select_nine:
  "select_invasive_reports 3000 nine_snails = replicate 9 (Some (Fin 0), Some (Fin 0), 1000)"
  by (simp add: select_invasive_reports_def nine_snails_def snail_row_def
        where_recent_invasive_def invasive_species_def days_def eval_nat_numeral)

lemma scoring_nine:
  "upload_scoring 3000 3000 (Fin 0) (Fin 0) ''Apple snail'' nine_snails =
     Inr \<lparr>cluster_count = 9, recent_count = 9, anomaly_flag = 1, score = 6.6, risk = ''High'',
          store = nine_snails\<lparr>anomalies := [stress_anomaly], alerts := [snail_alert]\<rparr>\<rparr>"
  unfolding upload_scoring_def Let_def select_nine loop_same
  by (simp add: risk_score_value_def risk_of_score_def insert_anomaly_def insert_alert_def
        next_id_def nine_snails_def Critical_def stress_anomaly_def snail_alert_def)

lemma upload_nine:
  "upload 3000 3000 snail_request nine_snails = (ten_snails, Inr high_page)"
  unfolding upload_def Let_def
  apply (simp add: snail_fields predict_snail invasive_species_def scoring_nine)
  apply (simp add: insert_report_def nine_snails_def next_id_def snail_row_def py_round2_def
           ten_snails_def snail_page_def high_page_def)
  done

lemma trend_label:
  "get_spread_trend now_sql d = (c, p, t) \<Longrightarrow>
     t = (if p < c then Spreading else if c = p then Stable else Declining)"
  by (auto simp: get_spread_trend_def Let_def)

lemma null_store_breaks_scoring:
  "upload 3000 3000 snail_request null_store = (null_store, Inl TypeError)"
  unfolding upload_def Let_def
  by (simp add: snail_fields predict_snail invasive_species_def upload_scoring_def
        select_invasive_reports_def null_store_def snail_row_def where_recent_invasive_def days_def)

lemma predict_beetle:
  "predict_species (model_output nan_request) = Inr (''Dung beetle'', 0.9)"
  by (simp add: predict_species_def classes_def nan_request_def)

lemma nan_fields:
  "files_image nan_request = Some ''beetle.jpg''"
  "form_latitude nan_request = FloatOf NaN"
  "form_longitude nan_request = FloatOf (Fin 0)"
  "form_address nan_request = Some ''field''"
  by (simp_all add: nan_request_def)

lemma upload_error_keeps_store:
  "upload now_sql now_py req d = (d', Inl e) \<Longrightarrow> d' = d"
  unfolding upload_def Let_def
  by (auto split: option.splits sum.splits prod.splits if_splits)

lemma upload_appends_report:
  assumes "upload now_sql now_py req d = (d', Inr page)"
  shows "\<exists>row. reports d' = reports d @ [row]"
proof -
  from upload_ok[OF assms] obtain filename address confidence lvl d2 where
    d': "d' = insert_report filename (page_latitude page) (page_longitude page) address
           (page_prediction page) now_py (Fin confidence) lvl d2"
    and br: "if page_prediction page \<in> set invasive_species
     then (\<exists>s. upload_scoring now_sql now_py (page_latitude page) (page_longitude page)
                 (page_prediction page) d = Inr s \<and> lvl = risk s \<and> d2 = store s)
     else lvl = default_risk (page_prediction page) \<and> d2 = d"
    by blast
  have "reports d2 = reports d"
    using br upload_scoring_store(1) by (auto split: if_splits)
  then show ?thesis by (simp add: d' insert_report_tables)
qed

subsection \<open>Composite score and risk level\<close>

text \<open>
  C1. Every upload whose detected species is invasive and that completes has been scored:
  the score is \<open>cluster_count * 0.4 + recent_count * 0.3 + anomaly_flag * 0.3\<close>, and
  the risk shown on the page and stored with the new report is \<open>Low\<close> for a score in
  \<open>[0, 3)\<close>, \<open>Moderate\<close> in \<open>[3, 6)\<close>, \<open>High\<close> in \<open>[6, 9)\<close> and
  \<open>Critical\<close> from 9 on.
\<close>

theorem composite_score_and_level:
  assumes "upload now_sql now_py req d = (d', Inr page)"
    and "page_prediction page \<in> set invasive_species"
  shows "\<exists>s. upload_scoring now_sql now_py (page_latitude page) (page_longitude page)
              (page_prediction page) d = Inr s \<and>
           score s = real (cluster_count s) * 0.4 + real (recent_count s) * 0.3
                      + real (anomaly_flag s) * 0.3 \<and>
           page_risk page = risk s \<and>
           report_risk (last (reports d')) = risk s \<and>
           (risk s = ''Low'' \<longleftrightarrow> 0 \<le> score s \<and> score s < 3) \<and>
           (risk s = ''Moderate'' \<longleftrightarrow> 3 \<le> score s \<and> score s < 6) \<and>
           (risk s = ''High'' \<longleftrightarrow> 6 \<le> score s \<and> score s < 9) \<and>
           (risk s = Critical \<longleftrightarrow> 9 \<le> score s)"
proof -
  from upload_ok[OF assms(1)] assms(2) obtain filename address confidence s where
    sc: "upload_scoring now_sql now_py (page_latitude page) (page_longitude page)
           (page_prediction page) d = Inr s"
    and pg: "page_risk page = risk s"
    and d': "d' = insert_report filename (page_latitude page) (page_longitude page) address
           (page_prediction page) now_py (Fin confidence) (risk s) (store s)"
    by (metis result_page.select_convs(3))
  have last: "report_risk (last (reports d')) = risk s"
    by (simp add: d' insert_report_def)
  note f = upload_scoring_fields[OF sc]
  have sc_val: "score s = real (cluster_count s) * 0.4 + real (recent_count s) * 0.3
                      + real (anomaly_flag s) * 0.3"
    by (simp add: f(4) risk_score_value_def)
  have nonneg: "0 \<le> score s" by (simp add: f(4) risk_score_value_nonneg)
  show ?thesis
    using sc sc_val pg last nonneg risk_of_score_cases[of "score s"] f(5)
    by auto
qed

theorem composite_score_and_level_witness:
  "upload 3000 3000 snail_request two_snails = (three_snails, Inr snail_page) \<and>
   page_prediction snail_page \<in> set invasive_species \<and>
   (\<exists>s. upload_scoring 3000 3000 (page_latitude snail_page) (page_longitude snail_page)
              (page_prediction snail_page) two_snails = Inr s \<and>
           score s = real (cluster_count s) * 0.4 + real (recent_count s) * 0.3
                      + real (anomaly_flag s) * 0.3 \<and>
           page_risk snail_page = risk s \<and>
           report_risk (last (reports three_snails)) = risk s \<and>
           (risk s = ''Low'' \<longleftrightarrow> 0 \<le> score s \<and> score s < 3) \<and>
           (risk s = ''Moderate'' \<longleftrightarrow> 3 \<le> score s \<and> score s < 6) \<and>
           (risk s = ''High'' \<longleftrightarrow> 6 \<le> score s \<and> score s < 9) \<and>
           (risk s = Critical \<longleftrightarrow> 9 \<le> score s))"
proof -
  have h1: "upload 3000 3000 snail_request two_snails = (three_snails, Inr snail_page)"
    by (rule upload_two)
  have h2: "page_prediction snail_page \<in> set invasive_species"
    by (simp add: snail_page_def invasive_species_def)
  from composite_score_and_level[OF h1 h2] h1 h2 show ?thesis by blast
qed

subsection \<open>Anomaly emission\<close>

text \<open>
  C2. After a completed upload, the anomalies table has exactly one new row if the detected
  species is invasive and \<open>cluster_count\<close> is at least 2, and is unchanged otherwise;
  \<open>anomaly_flag\<close> is 1 in the first case and 0 in the second. The new row carries the
  coordinate stored with the new report, the radius 20000 and the fixed description.
\<close>

theorem anomaly_iff_invasive_cluster:
  assumes "upload now_sql now_py req d = (d', Inr page)"
  shows "(page_prediction page \<in> set invasive_species \<longrightarrow>
           (\<exists>s. upload_scoring now_sql now_py (page_latitude page) (page_longitude page)
                  (page_prediction page) d = Inr s \<and>
                (anomaly_flag s = 1 \<longleftrightarrow> 2 \<le> cluster_count s) \<and>
                (anomaly_flag s = 0 \<longleftrightarrow> cluster_count s < 2) \<and>
                anomalies d' = anomalies d @
                  (if 2 \<le> cluster_count s
                   then [\<lparr>anomaly_id = next_id (map anomaly_id (anomalies d)),
                          anomaly_latitude = report_latitude (last (reports d')),
                          anomaly_longitude = report_longitude (last (reports d')),
                          anomaly_radius = Some (Fin 20000),
                          anomaly_description =
                            ''Vegetation Stress Detected via Satellite Correlation''\<rparr>]
                   else []))) \<and>
         (page_prediction page \<notin> set invasive_species \<longrightarrow> anomalies d' = anomalies d) \<and>
         report_latitude (last (reports d')) = bind_real (page_latitude page) \<and>
         report_longitude (last (reports d')) = bind_real (page_longitude page)"
proof -
  from upload_ok[OF assms] obtain filename address confidence lvl d2 where
    d': "d' = insert_report filename (page_latitude page) (page_longitude page) address
           (page_prediction page) now_py (Fin confidence) lvl d2"
    and br: "if page_prediction page \<in> set invasive_species
     then (\<exists>s. upload_scoring now_sql now_py (page_latitude page) (page_longitude page)
                 (page_prediction page) d = Inr s \<and> lvl = risk s \<and> d2 = store s)
     else lvl = default_risk (page_prediction page) \<and> d2 = d"
    by blast
  have coord: "report_latitude (last (reports d')) = bind_real (page_latitude page)"
      "report_longitude (last (reports d')) = bind_real (page_longitude page)"
    by (simp_all add: d' insert_report_tables)
  have an: "anomalies d' = anomalies d2" by (simp add: d' insert_report_tables)
  show ?thesis
  proof (cases "page_prediction page \<in> set invasive_species")
    case True
    with br obtain s where sc: "upload_scoring now_sql now_py (page_latitude page)
        (page_longitude page) (page_prediction page) d = Inr s"
      and d2: "d2 = store s" by auto
    from upload_scoring_store(2)[OF sc] upload_scoring_fields(3)[OF sc] sc True
    show ?thesis
      using coord an d2 by auto
  next
    case False
    with br have "d2 = d" by auto
    with False coord an show ?thesis by simp
  qed
qed

theorem anomaly_iff_invasive_cluster_witness:
  "upload 3000 3000 snail_request two_snails = (three_snails, Inr snail_page) \<and>
   page_prediction snail_page \<in> set invasive_species \<and>
   (\<exists>s. upload_scoring 3000 3000 (Fin 0) (Fin 0) ''Apple snail'' two_snails = Inr s \<and>
        cluster_count s = 2 \<and> anomaly_flag s = 1) \<and>
   anomalies three_snails = anomalies two_snails @
     [\<lparr>anomaly_id = 1, anomaly_latitude = report_latitude (last (reports three_snails)),
       anomaly_longitude = report_longitude (last (reports three_snails)),
       anomaly_radius = Some (Fin 20000),
       anomaly_description = ''Vegetation Stress Detected via Satellite Correlation''\<rparr>]"
proof -
  have h: "upload 3000 3000 snail_request two_snails = (three_snails, Inr snail_page)"
    by (rule upload_two)
  have p: "page_prediction snail_page = ''Apple snail''"
    "page_latitude snail_page = Fin 0" "page_longitude snail_page = Fin 0"
    by (simp_all add: snail_page_def)
  have inv: "page_prediction snail_page \<in> set invasive_species"
    by (simp add: p invasive_species_def)
  from anomaly_iff_invasive_cluster[OF h] inv obtain s where
    sc: "upload_scoring 3000 3000 (page_latitude snail_page) (page_longitude snail_page)
           (page_prediction snail_page) two_snails = Inr s"
    and fl: "anomaly_flag s = 1 \<longleftrightarrow> 2 \<le> cluster_count s"
    and an: "anomalies three_snails = anomalies two_snails @
                  (if 2 \<le> cluster_count s
                   then [\<lparr>anomaly_id = next_id (map anomaly_id (anomalies two_snails)),
                          anomaly_latitude = report_latitude (last (reports three_snails)),
                          anomaly_longitude = report_longitude (last (reports three_snails)),
                          anomaly_radius = Some (Fin 20000),
                          anomaly_description =
                            ''Vegetation Stress Detected via Satellite Correlation''\<rparr>]
                   else [])"
    by blast
  from sc scoring_two have s: "s = snail_scoring" by (simp add: p)
  have cc: "cluster_count s = 2" by (simp add: s snail_scoring_def)
  with fl have af: "anomaly_flag s = 1" by simp
  have nid: "next_id (map anomaly_id (anomalies two_snails)) = 1"
    by (simp add: two_snails_def next_id_def)
  from an cc nid have an': "anomalies three_snails = anomalies two_snails @
     [\<lparr>anomaly_id = 1, anomaly_latitude = report_latitude (last (reports three_snails)),
       anomaly_longitude = report_longitude (last (reports three_snails)),
       anomaly_radius = Some (Fin 20000),
       anomaly_description = ''Vegetation Stress Detected via Satellite Correlation''\<rparr>]"
    by simp
  from sc have sc': "upload_scoring 3000 3000 (Fin 0) (Fin 0) ''Apple snail'' two_snails = Inr s"
    by (simp add: p)
  from h inv sc' cc af an' show ?thesis by blast
qed

subsection \<open>Alert emission\<close>

text \<open>
  C3. After a completed upload, the alerts table has exactly one new row if the final risk
  is \<open>High\<close> or \<open>Critical\<close>, and is unchanged otherwise. The severity of the new
  row is that risk, its status is \<open>Active\<close> and its species is the detected label.
\<close>

theorem alert_iff_high_or_critical:
  assumes "upload now_sql now_py req d = (d', Inr page)"
  shows "alerts d' = alerts d @
           (if page_risk page = ''High'' \<or> page_risk page = Critical
            then [\<lparr>alert_id = next_id (map alert_id (alerts d)),
                   alert_latitude = bind_real (page_latitude page),
                   alert_longitude = bind_real (page_longitude page),
                   alert_severity = page_risk page,
                   alert_message = page_prediction page @ '' detected at high risk'',
                   alert_created_at = now_py,
                   alert_status = ''Active'',
                   alert_species = page_prediction page\<rparr>]
            else []) \<and>
         report_risk (last (reports d')) = page_risk page"
proof -
  from upload_ok[OF assms] obtain filename address confidence lvl d2 where
    pg: "page_risk page = lvl"
    and d': "d' = insert_report filename (page_latitude page) (page_longitude page) address
           (page_prediction page) now_py (Fin confidence) lvl d2"
    and br: "if page_prediction page \<in> set invasive_species
     then (\<exists>s. upload_scoring now_sql now_py (page_latitude page) (page_longitude page)
                 (page_prediction page) d = Inr s \<and> lvl = risk s \<and> d2 = store s)
     else lvl = default_risk (page_prediction page) \<and> d2 = d"
    by (metis result_page.select_convs(3))
  have stored: "report_risk (last (reports d')) = page_risk page"
    by (simp add: d' insert_report_tables pg)
  have al: "alerts d' = alerts d2" by (simp add: d' insert_report_tables)
  show ?thesis
  proof (cases "page_prediction page \<in> set invasive_species")
    case True
    with br obtain s where sc: "upload_scoring now_sql now_py (page_latitude page)
        (page_longitude page) (page_prediction page) d = Inr s"
      and l: "lvl = risk s" and d2: "d2 = store s" by auto
    from upload_scoring_store(3)[OF sc] show ?thesis
      using stored al pg l d2 by simp
  next
    case False
    with br have l: "lvl = default_risk (page_prediction page)" and d2: "d2 = d" by auto
    from default_risk_no_alert[of "page_prediction page"] show ?thesis
      using stored al pg l d2 by simp
  qed
qed

theorem alert_iff_high_or_critical_witness:
  "upload 3000 3000 snail_request nine_snails = (ten_snails, Inr high_page) \<and>
   page_risk high_page = ''High'' \<and>
   alerts ten_snails = alerts nine_snails @
     [\<lparr>alert_id = 1, alert_latitude = Some (Fin 0), alert_longitude = Some (Fin 0),
       alert_severity = ''High'', alert_message = ''Apple snail detected at high risk'',
       alert_created_at = 3000, alert_status = ''Active'', alert_species = ''Apple snail''\<rparr>] \<and>
   report_risk (last (reports ten_snails)) = ''High''"
proof -
  have h: "upload 3000 3000 snail_request nine_snails = (ten_snails, Inr high_page)"
    by (rule upload_nine)
  have p: "page_risk high_page = ''High''" "page_prediction high_page = ''Apple snail''"
    "page_latitude high_page = Fin 0" "page_longitude high_page = Fin 0"
    by (simp_all add: high_page_def snail_page_def)
  from alert_iff_high_or_critical[OF h] h p show ?thesis
    by (simp add: nine_snails_def next_id_def)
qed

subsection \<open>The counts exclude the new report\<close>

text \<open>
  C7. In a completed upload of an invasive species, the scoring that decides the outcome
  is the scoring of the store as it is before the upload: the risk on the page and in the
  new row is its risk, and the store after the upload is its store with the new report
  inserted. Its \<open>recent_count\<close> is the number of invasive rows of the trailing seven
  days in the table before the upload and its \<open>cluster_count\<close> the result of the loop
  over them. The new row is appended afterwards under a fresh key, so the same query on
  the table after the upload finds one row more when the new row falls in the window.
\<close>

theorem counts_exclude_new_report:
  assumes "upload now_sql now_py req d = (d', Inr page)"
    and "page_prediction page \<in> set invasive_species"
  shows "\<exists>s confidence.
           upload_scoring now_sql now_py (page_latitude page) (page_longitude page)
              (page_prediction page) d = Inr s \<and>
           recent_count s = length (filter (where_recent_invasive now_sql) (reports d)) \<and>
           cluster_loop (page_latitude page) (page_longitude page)
             (select_invasive_reports now_sql d) 0 = Inr (cluster_count s) \<and>
           predict_species (model_output req) = Inr (page_prediction page, confidence) \<and>
           d' = insert_report (page_image page) (page_latitude page) (page_longitude page)
                  (page_address page) (page_prediction page) now_py (Fin confidence)
                  (risk s) (store s) \<and>
           page_risk page = risk s \<and>
           report_risk (last (reports d')) = risk s \<and>
           anomalies d' = anomalies (store s) \<and>
           alerts d' = alerts (store s) \<and>
           reports (store s) = reports d \<and>
           reports d' = reports d @ [last (reports d')] \<and>
           report_id (last (reports d')) \<notin> set (map report_id (reports d)) \<and>
           length (filter (where_recent_invasive now_sql) (reports d')) =
             recent_count s + (if now_sql - days 7 \<le> now_py then 1 else 0)"
proof -
  from upload_ok[OF assms(1)] obtain filename address confidence lvl d2 where
    pr: "predict_species (model_output req) = Inr (page_prediction page, confidence)"
    and pg: "page = \<lparr>page_image = filename, page_prediction = page_prediction page,
            page_risk = lvl, page_latitude = page_latitude page,
            page_longitude = page_longitude page, page_address = address,
            page_confidence = py_round2 (confidence * 100)\<rparr>"
    and d0: "d' = insert_report filename (page_latitude page) (page_longitude page) address
           (page_prediction page) now_py (Fin confidence) lvl d2"
    and br: "if page_prediction page \<in> set invasive_species
     then (\<exists>s. upload_scoring now_sql now_py (page_latitude page) (page_longitude page)
                 (page_prediction page) d = Inr s \<and> lvl = risk s \<and> d2 = store s)
     else lvl = default_risk (page_prediction page) \<and> d2 = d"
    by blast
  from br assms(2) obtain s where
    sc: "upload_scoring now_sql now_py (page_latitude page) (page_longitude page)
           (page_prediction page) d = Inr s"
    and lvl: "lvl = risk s" and d2: "d2 = store s"
    by auto
  have fn: "page_image page = filename" by (subst pg) simp
  have ad: "page_address page = address" by (subst pg) simp
  have rk: "page_risk page = risk s" by (subst pg) (simp add: lvl)
  have d': "d' = insert_report (page_image page) (page_latitude page) (page_longitude page)
                  (page_address page) (page_prediction page) now_py (Fin confidence)
                  (risk s) (store s)"
    using d0 by (simp add: fn ad lvl d2)
  note f = upload_scoring_fields[OF sc]
  have rs: "reports (store s) = reports d" by (rule upload_scoring_store(1)[OF sc])
  have rc: "recent_count s = length (filter (where_recent_invasive now_sql) (reports d))"
    by (simp add: f(2) select_invasive_reports_def)
  have stored: "report_risk (last (reports d')) = risk s"
    by (subst d') (simp add: insert_report_tables)
  have an: "anomalies d' = anomalies (store s)" by (subst d') (simp add: insert_report_tables)
  have al: "alerts d' = alerts (store s)" by (subst d') (simp add: insert_report_tables)
  have app: "reports d' = reports d @ [last (reports d')]"
    by (subst (1 2) d') (simp add: insert_report_tables rs)
  have idn: "report_id (last (reports d')) = next_id (map report_id (reports d))"
    by (subst d') (simp add: insert_report_tables rs)
  have fresh: "report_id (last (reports d')) \<notin> set (map report_id (reports d))"
    unfolding idn by (rule next_id_fresh)
  have newrow: "where_recent_invasive now_sql (last (reports d')) \<longleftrightarrow>
                  now_sql - days 7 \<le> now_py"
    using assms(2) by (subst d') (simp add: insert_report_tables where_recent_invasive_def)
  have "length (filter (where_recent_invasive now_sql) (reports d')) =
          length (filter (where_recent_invasive now_sql) (reports d @ [last (reports d')]))"
    using app by simp
  also have "\<dots> = recent_count s + (if now_sql - days 7 \<le> now_py then 1 else 0)"
    by (simp add: rc newrow)
  finally have cnt: "length (filter (where_recent_invasive now_sql) (reports d')) =
             recent_count s + (if now_sql - days 7 \<le> now_py then 1 else 0)" .
  from sc rc f(1) pr d' rk stored an al rs app fresh cnt show ?thesis by blast
qed

theorem counts_exclude_new_report_witness:
  "upload 3000 3000 snail_request two_snails = (three_snails, Inr snail_page) \<and>
   page_prediction snail_page \<in> set invasive_species \<and>
   (\<exists>s. upload_scoring 3000 3000 (Fin 0) (Fin 0) ''Apple snail'' two_snails = Inr s \<and>
        recent_count s = 2 \<and>
        page_risk snail_page = risk s \<and>
        three_snails = insert_report ''snail.jpg'' (Fin 0) (Fin 0) ''pond'' ''Apple snail''
                         3000 (Fin 0.9) (risk s) (store s) \<and>
        anomalies three_snails = anomalies (store s) \<and>
        length (filter (where_recent_invasive 3000) (reports three_snails)) = recent_count s + 1) \<and>
   report_id (last (reports three_snails)) \<notin> set (map report_id (reports two_snails))"
proof -
  have h: "upload 3000 3000 snail_request two_snails = (three_snails, Inr snail_page)"
    by (rule upload_two)
  have p: "page_prediction snail_page = ''Apple snail''"
    "page_latitude snail_page = Fin 0" "page_longitude snail_page = Fin 0"
    "page_image snail_page = ''snail.jpg''" "page_address snail_page = ''pond''"
    by (simp_all add: snail_page_def)
  have inv: "page_prediction snail_page \<in> set invasive_species"
    by (simp add: p invasive_species_def)
  from counts_exclude_new_report[OF h inv] obtain s confidence where
    sc: "upload_scoring 3000 3000 (Fin 0) (Fin 0) ''Apple snail'' two_snails = Inr s"
    and rc: "recent_count s = length (filter (where_recent_invasive 3000) (reports two_snails))"
    and pr: "predict_species (model_output snail_request) = Inr (''Apple snail'', confidence)"
    and d': "three_snails = insert_report ''snail.jpg'' (Fin 0) (Fin 0) ''pond'' ''Apple snail''
                         3000 (Fin confidence) (risk s) (store s)"
    and rk: "page_risk snail_page = risk s"
    and an: "anomalies three_snails = anomalies (store s)"
    and fresh: "report_id (last (reports three_snails)) \<notin> set (map report_id (reports two_snails))"
    and after: "length (filter (where_recent_invasive 3000) (reports three_snails)) =
             recent_count s + (if 3000 - days 7 \<le> (3000::int) then 1 else 0)"
    unfolding p by blast
  from pr predict_snail have cf: "confidence = 0.9" by simp
  have rc2: "recent_count s = 2"
    by (simp add: rc two_snails_def snail_row_def where_recent_invasive_def
          invasive_species_def days_def)
  from after have after': "length (filter (where_recent_invasive 3000) (reports three_snails)) =
             recent_count s + 1"
    by (simp add: days_def)
  from d' cf have d'': "three_snails = insert_report ''snail.jpg'' (Fin 0) (Fin 0) ''pond''
       ''Apple snail'' 3000 (Fin 0.9) (risk s) (store s)" by simp
  from h inv sc rc2 rk d'' an after' fresh show ?thesis by blast
qed

subsection \<open>The cluster is part of the recent reports\<close>

text \<open>
  C10. In every scoring, \<open>cluster_count\<close> is at most \<open>recent_count\<close>; when the
  anomaly fires, both counts are at least 2 and the score is at least 1.7.
\<close>

theorem cluster_at_most_recent:
  assumes "upload_scoring now_sql now_py latitude longitude result d = Inr s"
  shows "cluster_count s \<le> recent_count s \<and>
         (anomaly_flag s = 1 \<longrightarrow>
            2 \<le> cluster_count s \<and> 2 \<le> recent_count s \<and> 1.7 \<le> score s)"
proof -
  note f = upload_scoring_fields[OF assms]
  from cluster_loop_le[OF f(1)] f(2) have le: "cluster_count s \<le> recent_count s" by simp
  have "1.7 \<le> score s" if "2 \<le> cluster_count s"
  proof -
    from that le have r: "2 \<le> recent_count s" by simp
    from that f(3) have a: "anomaly_flag s = 1" by simp
    have "real (cluster_count s) * 0.4 \<ge> 0.8" using that by simp
    moreover have "real (recent_count s) * 0.3 \<ge> 0.6" using r by simp
    ultimately show ?thesis by (simp add: f(4) risk_score_value_def a)
  qed
  with le f(3) show ?thesis by (auto split: if_splits)
qed

theorem cluster_at_most_recent_witness:
  "upload_scoring 3000 3000 (Fin 0) (Fin 0) ''Apple snail'' two_snails = Inr snail_scoring \<and>
   anomaly_flag snail_scoring = 1 \<and>
   cluster_count snail_scoring \<le> recent_count snail_scoring \<and>
   2 \<le> cluster_count snail_scoring \<and> 2 \<le> recent_count snail_scoring \<and>
   1.7 \<le> score snail_scoring"
proof -
  have h: "upload_scoring 3000 3000 (Fin 0) (Fin 0) ''Apple snail'' two_snails = Inr snail_scoring"
    by (rule scoring_two)
  have a: "anomaly_flag snail_scoring = 1" by (simp add: snail_scoring_def)
  from cluster_at_most_recent[OF h] h a show ?thesis by blast
qed

subsection \<open>Spread trend\<close>

text \<open>
  C4. The claim is that the previous week is the half-open interval from fourteen to seven
  days ago, so that no report is counted in both weeks. The query of the previous week
  uses \<open>BETWEEN\<close>, which includes its upper bound, and the query of the current week
  starts at the same instant: a report created exactly seven days ago is counted in both,
  and the trend of a store holding only that report is \<open>Stable\<close> with one report in
  each week.
\<close>

theorem boundary_report_in_both_weeks:
  "current_week_rows 2000000 boundary_store = [snail_row 1 (2000000 - days 7)] \<and>
   previous_week_rows 2000000 boundary_store = [snail_row 1 (2000000 - days 7)] \<and>
   get_spread_trend 2000000 boundary_store = (1, 1, Stable)"
  by (simp add: get_spread_trend_def current_week_rows_def previous_week_rows_def
        boundary_store_def where_recent_invasive_def invasive_species_def days_def snail_row_def)

subsection \<open>Low confidence\<close>

text \<open>
  C5. When the largest class probability is below 0.70, whichever class it belongs to,
  \<open>predict_species\<close> answers \<open>Unknown Species\<close>, and an upload with well-formed
  fields completes on every store with the risk
  \<open>Uncertain - Low Confidence Detection\<close>: it adds the report and leaves the alerts
  and the anomalies as they are. It completes even on a store on which the cluster loop
  raises, so the loop is not run.
\<close>

theorem low_confidence_is_uncertain:
  assumes "files_image req = Some filename"
    and "form_latitude req = FloatOf latitude"
    and "form_longitude req = FloatOf longitude"
    and "form_address req = Some address"
    and "model_output req = Inr prediction"
    and "prediction \<noteq> []"
    and "prediction ! argmax prediction < 0.70"
  shows "predict_species (model_output req) =
           Inr (''Unknown Species'', prediction ! argmax prediction) \<and>
         upload now_sql now_py req d =
           (insert_report filename latitude longitude address ''Unknown Species'' now_py
              (Fin (prediction ! argmax prediction)) ''Uncertain - Low Confidence Detection'' d,
            Inr \<lparr>page_image = filename, page_prediction = ''Unknown Species'',
                  page_risk = ''Uncertain - Low Confidence Detection'',
                  page_latitude = latitude, page_longitude = longitude,
                  page_address = address,
                  page_confidence = py_round2 (prediction ! argmax prediction * 100)\<rparr>) \<and>
         alerts (fst (upload now_sql now_py req d)) = alerts d \<and>
         anomalies (fst (upload now_sql now_py req d)) = anomalies d \<and>
         length (reports (fst (upload now_sql now_py req d))) = length (reports d) + 1"
proof -
  have p: "predict_species (model_output req) =
           Inr (''Unknown Species'', prediction ! argmax prediction)"
    using assms(5-7) by (simp add: predict_species_def Let_def)
  have u: "upload now_sql now_py req d =
           (insert_report filename latitude longitude address ''Unknown Species'' now_py
              (Fin (prediction ! argmax prediction)) ''Uncertain - Low Confidence Detection'' d,
            Inr \<lparr>page_image = filename, page_prediction = ''Unknown Species'',
                  page_risk = ''Uncertain - Low Confidence Detection'',
                  page_latitude = latitude, page_longitude = longitude,
                  page_address = address,
                  page_confidence = py_round2 (prediction ! argmax prediction * 100)\<rparr>)"
    unfolding upload_def Let_def
    by (simp add: assms(1-4) p invasive_species_def default_risk_def)
  show ?thesis
    by (simp add: p u insert_report_tables)
qed

theorem low_confidence_is_uncertain_witness:
  "predict_species (model_output unsure_request) = Inr (''Unknown Species'', 0.65) \<and>
   snd (upload 3000 3000 unsure_request null_store) =
     Inr \<lparr>page_image = ''blur.jpg'', page_prediction = ''Unknown Species'',
          page_risk = ''Uncertain - Low Confidence Detection'',
          page_latitude = Fin 0, page_longitude = Fin 0, page_address = ''pond'',
          page_confidence = 65\<rparr> \<and>
   alerts (fst (upload 3000 3000 unsure_request null_store)) = [] \<and>
   anomalies (fst (upload 3000 3000 unsure_request null_store)) = [] \<and>
   length (reports (fst (upload 3000 3000 unsure_request null_store))) = 2"
proof -
  have a: "argmax [0.3, 0.65, 0.05 :: real] = 1" by simp
  have h: "files_image unsure_request = Some ''blur.jpg''"
    "form_latitude unsure_request = FloatOf (Fin 0)"
    "form_longitude unsure_request = FloatOf (Fin 0)"
    "form_address unsure_request = Some ''pond''"
    "model_output unsure_request = Inr [0.3, 0.65, 0.05]"
    "[0.3, 0.65, 0.05 :: real] \<noteq> []"
    "[0.3, 0.65, 0.05 :: real] ! argmax [0.3, 0.65, 0.05] < 0.70"
    by (simp_all add: unsure_request_def)
  from low_confidence_is_uncertain[OF h, of 3000 3000 null_store] show ?thesis
    by (simp add: py_round2_def null_store_def insert_report_tables)
qed

subsection \<open>The boundary of the cluster\<close>

text \<open>
  C6. A candidate row is counted when its distance is at most 20: a candidate at exactly
  20 km is counted and one at 20.0001 km is not.
\<close>

theorem cluster_boundary_inclusive:
  assumes "py_float (fst report) = Inr lat2"
    and "py_float (fst (snd report)) = Inr lon2"
    and "calculate_distance latitude longitude lat2 lon2 = Inr (Fin km)"
  shows "cluster_loop latitude longitude (report # rest) n =
           cluster_loop latitude longitude rest (if km \<le> 20 then n + 1 else n) \<and>
         (km = 20 \<longrightarrow> cluster_loop latitude longitude [report] 0 = Inr 1) \<and>
         (km = 20.0001 \<longrightarrow> cluster_loop latitude longitude [report] 0 = Inr 0)"
  using assms by simp

theorem cluster_boundary_inclusive_witness:
  "calculate_distance (Fin 0) (Fin 0) (Fin 0) (Fin (20 / 6371 * 180 / pi)) = Inr (Fin 20) \<and>
   cluster_loop (Fin 0) (Fin 0) [at_20km] 0 = Inr 1 \<and>
   calculate_distance (Fin 0) (Fin 0) (Fin 0) (Fin (20.0001 / 6371 * 180 / pi))
     = Inr (Fin 20.0001) \<and>
   cluster_loop (Fin 0) (Fin 0) [beyond_20km] 0 = Inr 0 \<and>
   cluster_loop (Fin 0) (Fin 0) [at_20km, beyond_20km] 0 = Inr 1"
proof -
  have pi3: "(2::real) \<le> pi" by (rule pi_ge_two)
  have d1: "calculate_distance (Fin 0) (Fin 0) (Fin 0) (Fin (20 / 6371 * 180 / pi)) = Inr (Fin 20)"
    using equator_distance[of "20 / 6371"] pi3 by simp
  have d2: "calculate_distance (Fin 0) (Fin 0) (Fin 0) (Fin (20.0001 / 6371 * 180 / pi))
     = Inr (Fin 20.0001)"
    using equator_distance[of "20.0001 / 6371"] pi3 by simp
  have r1: "py_float (fst at_20km) = Inr (Fin 0)"
    "py_float (fst (snd at_20km)) = Inr (Fin (20 / 6371 * 180 / pi))"
    by (simp_all add: at_20km_def)
  have r2: "py_float (fst beyond_20km) = Inr (Fin 0)"
    "py_float (fst (snd beyond_20km)) = Inr (Fin (20.0001 / 6371 * 180 / pi))"
    by (simp_all add: beyond_20km_def)
  note t1 = cluster_boundary_inclusive[OF r1 d1]
  note t2 = cluster_boundary_inclusive[OF r2 d2]
  have c1: "cluster_loop (Fin 0) (Fin 0) [at_20km] 0 = Inr 1" using t1 by simp
  have c2: "cluster_loop (Fin 0) (Fin 0) [beyond_20km] 0 = Inr 0" using t2 by simp
  have "cluster_loop (Fin 0) (Fin 0) [at_20km, beyond_20km] 0 =
          cluster_loop (Fin 0) (Fin 0) [beyond_20km] 1"
    using t1[of "[beyond_20km]" 0] by simp
  also have "\<dots> = Inr 1" using t2[of "[]" 1] by simp
  finally show ?thesis using d1 d2 c1 c2 by simp
qed

subsection \<open>Rejected uploads\<close>

text \<open>
  C8, as amended. An upload whose latitude or longitude field is missing or is no float
  literal fails with an error and leaves the store as it was; so does every upload that
  fails. A non-finite coordinate is a float literal and passes this check.
\<close>

theorem unparsable_coordinate_rejected:
  "(form_latitude req \<in> {Missing, NotFloat} \<or> form_longitude req \<in> {Missing, NotFloat}
      \<longrightarrow> (\<exists>e. upload now_sql now_py req d = (d, Inl e))) \<and>
   (\<forall>d' e. upload now_sql now_py req d = (d', Inl e) \<longrightarrow> d' = d)"
proof (intro conjI impI allI)
  assume "form_latitude req \<in> {Missing, NotFloat} \<or> form_longitude req \<in> {Missing, NotFloat}"
  then show "\<exists>e. upload now_sql now_py req d = (d, Inl e)"
    unfolding upload_def Let_def
    by (auto split: option.splits sum.splits float_arg.splits)
next
  fix d' e
  assume "upload now_sql now_py req d = (d', Inl e)"
  then show "d' = d" by (rule upload_error_keeps_store)
qed

theorem unparsable_coordinate_rejected_witness:
  "form_latitude bad_request \<in> {Missing, NotFloat} \<and>
   upload 3000 3000 bad_request two_snails = (two_snails, Inl ValueError)"
proof -
  have h: "form_latitude bad_request \<in> {Missing, NotFloat}"
    by (simp add: bad_request_def)
  from unparsable_coordinate_rejected[of bad_request 3000 3000 two_snails] h
  obtain e where u: "upload 3000 3000 bad_request two_snails = (two_snails, Inl e)"
    by blast
  have "snd (upload 3000 3000 bad_request two_snails) = Inl ValueError"
    unfolding upload_def by (simp add: bad_request_def nan_request_def)
  with u have "e = ValueError" by simp
  with u h show ?thesis by simp
qed

text \<open>
  The claim as stated fails: the upload of a native species with the latitude \<open>nan\<close>
  completes and its report is stored, with no latitude.
\<close>

theorem nan_coordinate_is_stored:
  "form_latitude nan_request = FloatOf NaN \<and>
   upload 3000 3000 nan_request two_snails =
     (two_snails\<lparr>reports := reports two_snails @ [nan_row]\<rparr>,
      Inr \<lparr>page_image = ''beetle.jpg'', page_prediction = ''Dung beetle'',
           page_risk = ''Low Risk (Native Species)'', page_latitude = NaN,
           page_longitude = Fin 0, page_address = ''field'', page_confidence = 90\<rparr>)"
  unfolding upload_def Let_def
  apply (simp add: nan_fields predict_beetle invasive_species_def default_risk_def)
  apply (simp add: insert_report_def two_snails_def next_id_def snail_row_def py_round2_def
           nan_row_def)
  done

subsection \<open>Review actions\<close>

text \<open>
  C9. Approving or rejecting a report sets the \<open>verified\<close> column of the rows with
  that key and changes nothing else: with that column erased the reports table is the
  same, the risk of every row is the same, and the alerts and anomalies are untouched.
  An upload leaves the rows that were there as they were, so a risk once stored is never
  rewritten.
\<close>

theorem review_changes_only_verified:
  "map (\<lambda>r. r\<lparr>report_verified := 0\<rparr>) (reports (fst (approve_report rid d))) =
     map (\<lambda>r. r\<lparr>report_verified := 0\<rparr>) (reports d) \<and>
   map report_verified (reports (fst (approve_report rid d))) =
     map (\<lambda>r. if report_id r = rid then 1 else report_verified r) (reports d) \<and>
   map report_risk (reports (fst (approve_report rid d))) = map report_risk (reports d) \<and>
   alerts (fst (approve_report rid d)) = alerts d \<and>
   anomalies (fst (approve_report rid d)) = anomalies d \<and>
   map (\<lambda>r. r\<lparr>report_verified := 0\<rparr>) (reports (fst (reject_report rid d))) =
     map (\<lambda>r. r\<lparr>report_verified := 0\<rparr>) (reports d) \<and>
   map report_verified (reports (fst (reject_report rid d))) =
     map (\<lambda>r. if report_id r = rid then - 1 else report_verified r) (reports d) \<and>
   map report_risk (reports (fst (reject_report rid d))) = map report_risk (reports d) \<and>
   alerts (fst (reject_report rid d)) = alerts d \<and>
   anomalies (fst (reject_report rid d)) = anomalies d \<and>
   take (length (reports d)) (reports (fst (upload now_sql now_py req d))) = reports d"
proof -
  have a: "map (\<lambda>r. r\<lparr>report_verified := 0\<rparr>) (reports (update_verified v rid d)) =
     map (\<lambda>r. r\<lparr>report_verified := 0\<rparr>) (reports d)" for v
    by (simp add: update_verified_def)
  have b: "map report_verified (reports (update_verified v rid d)) =
     map (\<lambda>r. if report_id r = rid then v else report_verified r) (reports d)" for v
    by (simp add: update_verified_def)
  have c: "map report_risk (reports (update_verified v rid d)) = map report_risk (reports d)" for v
    by (simp add: update_verified_def)
  have e: "alerts (update_verified v rid d) = alerts d"
     "anomalies (update_verified v rid d) = anomalies d" for v
    by (simp_all add: update_verified_def)
  have u: "take (length (reports d)) (reports (fst (upload now_sql now_py req d))) = reports d"
  proof (cases "upload now_sql now_py req d")
    case (Pair d' res)
    show ?thesis
    proof (cases res)
      case (Inl er)
      with Pair have "d' = d" by (simp add: upload_error_keeps_store)
      with Pair show ?thesis by simp
    next
      case (Inr page)
      with Pair upload_appends_report obtain row where "reports d' = reports d @ [row]"
        by blast
      with Pair show ?thesis by simp
    qed
  qed
  show ?thesis
    by (simp add: approve_report_def reject_report_def a b c e u)
qed

end
